theory Spec2Isabelle
  imports Main
begin

section \<open>Appointment store (services/zapiService.ts, class AppointmentService)\<close>

text \<open>
  An \<open>Appointment\<close> (types/index.ts) has the fields \<open>id\<close>, \<open>clientName\<close>, \<open>date\<close>,
  \<open>time\<close> and the optional \<open>notes\<close>. The field \<open>id\<close> is called \<open>appt_id\<close> here, since
  \<open>id\<close> is the identity function of HOL. A date is kept as the text that arrives in the
  request body.
\<close>

record Appointment =
  appt_id :: string
  clientName :: string
  date :: string
  time :: string
  "notes" :: "string option"

text \<open>
  The second argument of \<open>updateAppointment\<close> is the request body: an object holding any
  subset of the fields. \<open>None\<close> stands for a property that the object does not have.
\<close>

record AppointmentPatch =
  p_id :: "string option"
  p_clientName :: "string option"
  p_date :: "string option"
  p_time :: "string option"
  p_notes :: "string option"

text \<open>The object spread \<^verbatim>\<open>{ ...old, ...patch }\<close>: a property of the patch wins.\<close>

definition spread :: "Appointment \<Rightarrow> AppointmentPatch \<Rightarrow> Appointment" where
  "spread old patch =
     \<lparr> appt_id = (case p_id patch of Some v \<Rightarrow> v | None \<Rightarrow> appt_id old),
       clientName = (case p_clientName patch of Some v \<Rightarrow> v | None \<Rightarrow> clientName old),
       date = (case p_date patch of Some v \<Rightarrow> v | None \<Rightarrow> date old),
       time = (case p_time patch of Some v \<Rightarrow> v | None \<Rightarrow> time old),
       notes = (case p_notes patch of Some v \<Rightarrow> Some v | None \<Rightarrow> notes old) \<rparr>"

text \<open>\<^verbatim>\<open>Array.prototype.findIndex\<close>: the index of the first match, \<open>-1\<close> when there is none.\<close>

fun findIndex_from :: "('a \<Rightarrow> bool) \<Rightarrow> 'a list \<Rightarrow> int \<Rightarrow> int" where
  "findIndex_from P [] k = - 1"
| "findIndex_from P (x # xs) k = (if P x then k else findIndex_from P xs (k + 1))"

definition findIndex :: "('a \<Rightarrow> bool) \<Rightarrow> 'a list \<Rightarrow> int" where
  "findIndex P xs = findIndex_from P xs 0"

text \<open>
  \<^verbatim>\<open>Array.prototype.splice(start, deleteCount)\<close> with no inserted items: a negative start
  counts from the end, and both arguments are clamped to the array.
\<close>

definition splice :: "'a list \<Rightarrow> int \<Rightarrow> int \<Rightarrow> 'a list" where
  "splice xs start deleteCount =
     (let len = int (length xs);
          st = (if start < 0 then max (len + start) 0 else min start len);
          dc = min (max deleteCount 0) (len - st)
      in take (nat st) xs @ drop (nat (st + dc)) xs)"

text \<open>
  The private array \<open>appointments\<close> is the state. Every method takes it and returns its
  result together with the array afterwards.
\<close>

type_synonym store = "Appointment list"

definition scheduleAppointment :: "Appointment \<Rightarrow> store \<Rightarrow> Appointment \<times> store" where
  "scheduleAppointment appointment appointments = (appointment, appointments @ [appointment])"

definition getAppointments :: "store \<Rightarrow> Appointment list" where
  "getAppointments appointments = appointments"

definition updateAppointment ::
    "string \<Rightarrow> AppointmentPatch \<Rightarrow> store \<Rightarrow> Appointment option \<times> store" where
  "updateAppointment i updatedAppointment appointments =
     (let index = findIndex (\<lambda>app. appt_id app = i) appointments
      in if index \<noteq> - 1
         then (let appointments' =
                     appointments[nat index := spread (appointments ! nat index) updatedAppointment]
               in (Some (appointments' ! nat index), appointments'))
         else (None, appointments))"

definition cancelAppointment :: "string \<Rightarrow> store \<Rightarrow> bool \<times> store" where
  "cancelAppointment i appointments =
     (let index = findIndex (\<lambda>app. appt_id app = i) appointments
      in if index \<noteq> - 1 then (True, splice appointments index 1) else (False, appointments))"

text \<open>
  Sequences of store operations, for statements about every reachable state. \<open>run\<close>
  applies the operations from left to right and drops their results.
\<close>

datatype store_op = Schedule Appointment | Update string AppointmentPatch | Cancel string

fun apply_op :: "store_op \<Rightarrow> store \<Rightarrow> store" where
  "apply_op (Schedule a) s = snd (scheduleAppointment a s)"
| "apply_op (Update i p) s = snd (updateAppointment i p s)"
| "apply_op (Cancel i) s = snd (cancelAppointment i s)"

fun run :: "store_op list \<Rightarrow> store \<Rightarrow> store" where
  "run [] s = s"
| "run (x # xs) s = run xs (apply_op x s)"

text \<open>
  The store checks nothing about identifiers. \<open>fresh_ids\<close> is the discipline a caller has
  to follow for identifiers to stay unique: a scheduled record brings an \<open>id\<close> that is not
  stored yet, and a patch either has no \<open>id\<close> property, or repeats the \<open>id\<close> it is
  addressed to, or brings one that is not stored yet.
\<close>

fun fresh_ids :: "store_op list \<Rightarrow> store \<Rightarrow> bool" where
  "fresh_ids [] s = True"
| "fresh_ids (Schedule a # xs) s =
     (appt_id a \<notin> set (map appt_id s) \<and> fresh_ids xs (apply_op (Schedule a) s))"
| "fresh_ids (Update i p # xs) s =
     ((case p_id p of None \<Rightarrow> True | Some j \<Rightarrow> j = i \<or> j \<notin> set (map appt_id s))
      \<and> fresh_ids xs (apply_op (Update i p) s))"
| "fresh_ids (Cancel i # xs) s = fresh_ids xs (apply_op (Cancel i) s)"

section \<open>JavaScript values\<close>

text \<open>
  The values that travel as JSON: request payloads, response bodies. A number is an
  integer (floating point is not modelled). An object is the list of its own enumerable
  properties in enumeration order, with distinct keys. A \<open>char\<close> stands for one UTF-16
  code unit below 256. \<open>undefined\<close> is not a value of this type: a parameter or property
  that may be \<open>undefined\<close> has an \<open>option\<close> type, \<open>None\<close> standing for \<open>undefined\<close>.
\<close>

datatype jsval =
    JNull
  | JBool bool
  | JNum int
  | JStr string
  | JArr "jsval list"
  | JObj "(string \<times> jsval) list"

text \<open>What \<^verbatim>\<open>||\<close> and \<^verbatim>\<open>if\<close> test: \<open>null\<close>, \<open>false\<close>, \<open>0\<close> and \<open>""\<close> are falsy.\<close>

fun truthy :: "jsval \<Rightarrow> bool" where
  "truthy JNull = False"
| "truthy (JBool b) = b"
| "truthy (JNum n) = (n \<noteq> 0)"
| "truthy (JStr s) = (s \<noteq> [])"
| "truthy (JArr xs) = True"
| "truthy (JObj kvs) = True"

fun show_nat :: "nat \<Rightarrow> string" where
  "show_nat n =
     (if n < 10 then [''0123456789'' ! n]
      else show_nat (n div 10) @ [''0123456789'' ! (n mod 10)])"

declare show_nat.simps [simp del]

definition show_int :: "int \<Rightarrow> string" where
  "show_int i = (if i < 0 then CHR ''-'' # show_nat (nat (- i)) else show_nat (nat i))"

text \<open>\<^verbatim>\<open>Array.prototype.join\<close> on strings.\<close>

fun join_strings :: "string \<Rightarrow> string list \<Rightarrow> string" where
  "join_strings sep [] = []"
| "join_strings sep [x] = x"
| "join_strings sep (x # y # ys) = x @ sep @ join_strings sep (y # ys)"

text \<open>
  \<^verbatim>\<open>JSON.stringify\<close> without indentation. In a string, the double quote (code 34), the
  backslash (code 92) and the control characters below 32 are escaped.
\<close>

definition json_escape :: "char \<Rightarrow> string" where
  "json_escape c =
     (if c = CHR 0x22 then [CHR 0x5C, CHR 0x22]
      else if c = CHR 0x5C then [CHR 0x5C, CHR 0x5C]
      else if c = CHR 0x08 then [CHR 0x5C, CHR ''b'']
      else if c = CHR 0x0C then [CHR 0x5C, CHR ''f'']
      else if c = CHR 0x0A then [CHR 0x5C, CHR ''n'']
      else if c = CHR 0x0D then [CHR 0x5C, CHR ''r'']
      else if c = CHR 0x09 then [CHR 0x5C, CHR ''t'']
      else if (of_char c :: nat) < 32
        then [CHR 0x5C, CHR ''u'', CHR ''0'', CHR ''0'',
              ''0123456789abcdef'' ! (of_char c div 16),
              ''0123456789abcdef'' ! (of_char c mod 16)]
      else [c])"

definition json_quote :: "string \<Rightarrow> string" where
  "json_quote s = CHR 0x22 # concat (map json_escape s) @ [CHR 0x22]"

fun JSON_stringify :: "jsval \<Rightarrow> string" where
  "JSON_stringify JNull = ''null''"
| "JSON_stringify (JBool b) = (if b then ''true'' else ''false'')"
| "JSON_stringify (JNum n) = show_int n"
| "JSON_stringify (JStr s) = json_quote s"
| "JSON_stringify (JArr xs) = ''['' @ join_strings '','' (map JSON_stringify xs) @ '']''"
| "JSON_stringify (JObj kvs) =
     ''{'' @ join_strings '','' (map (\<lambda>kv. json_quote (fst kv) @ '':'' @ JSON_stringify (snd kv)) kvs)
      @ ''}''"

text \<open>
  The string conversion of a template literal \<^verbatim>\<open>`${v}`\<close>: an array is the join of its
  elements by a comma, with \<open>null\<close> as the empty string; an object is \<open>[object Object]\<close>.
\<close>

fun js_to_string :: "jsval \<Rightarrow> string" where
  "js_to_string JNull = ''null''"
| "js_to_string (JBool b) = (if b then ''true'' else ''false'')"
| "js_to_string (JNum n) = show_int n"
| "js_to_string (JStr s) = s"
| "js_to_string (JArr xs) =
     join_strings '','' (map (\<lambda>x. if x = JNull then [] else js_to_string x) xs)"
| "js_to_string (JObj kvs) = ''[object Object]''"

text \<open>
  \<^verbatim>\<open>String.prototype.trim\<close>. The white space below code 256: tab, line feed, vertical
  tab, form feed, carriage return, space and the no-break space.
\<close>

definition is_whitespace :: "char \<Rightarrow> bool" where
  "is_whitespace c \<longleftrightarrow>
     c = CHR 0x09 \<or> c = CHR 0x0A \<or> c = CHR 0x0B \<or> c = CHR 0x0C \<or> c = CHR 0x0D
     \<or> c = CHR 0x20 \<or> c = CHR 0xA0"

definition trim :: "string \<Rightarrow> string" where
  "trim s = rev (dropWhile is_whitespace (rev (dropWhile is_whitespace s)))"

text \<open>The only exception the code raises itself is \<^verbatim>\<open>new Error(message)\<close>.\<close>

datatype js_exn = Error string

section \<open>The HTTP client as the code sees it\<close>

text \<open>
  \<open>axios\<close> is an external library. The model takes the outcome of the awaited call as
  given by the environment: the promise resolves with a response (by default for a 2xx
  status), or rejects with an error object. That object has a \<open>message\<close>, has a
  \<open>response\<close> when the gateway answered (a non-2xx status) and none on a transport
  failure; \<open>err_json\<close> is the value that \<^verbatim>\<open>JSON.stringify\<close> serialises for the object.
  The response \<open>data\<close> is the parsed body when the body is JSON and the raw text
  (a \<open>JStr\<close>) otherwise.
\<close>

record axios_response =
  resp_status :: nat
  resp_data :: jsval

record axios_error =
  err_message :: string
  err_response :: "axios_response option"
  err_json :: jsval

datatype axios_outcome = Resolved axios_response | Rejected axios_error

text \<open>The request configuration the code hands to \<open>axios\<close>; \<open>None\<close> is an absent property.\<close>

record http_request =
  req_method :: "string option"
  req_url :: string
  req_headers :: "(string \<times> string) list"
  req_data :: "jsval option"
  req_timeout :: "nat option"

type_synonym gateway = "http_request \<Rightarrow> axios_outcome"

text \<open>The calls issued so far, oldest first: every network call appends its request.\<close>

type_synonym trace = "http_request list"

section \<open>ZapiService (services/zapiService.ts)\<close>

record ZapiService =
  apiUrl :: string
  token :: string

text \<open>The constructor takes no arguments and assigns two literals.\<close>

definition ZapiService_new :: ZapiService where
  "ZapiService_new = \<lparr> apiUrl = ''https://api.z-api.io/'', token = ''9D1448816F95F132200BAE50'' \<rparr>"

text \<open>
  \<open>sendRequest(endpoint, method, data)\<close>. The declared type of \<open>endpoint\<close> is \<open>string\<close>;
  it is a \<open>jsval\<close> here because \<open>MessageService.sendMessage\<close> passes an object, and the
  template literal converts whatever it gets. \<open>Inl\<close> is a thrown exception.
\<close>

definition sendRequest ::
    "ZapiService \<Rightarrow> gateway \<Rightarrow> jsval \<Rightarrow> string option \<Rightarrow> jsval option \<Rightarrow> trace
     \<Rightarrow> (js_exn + jsval) \<times> trace" where
  "sendRequest this net endpoint method data tr =
     (let request =
            \<lparr> req_method = method,
              req_url = apiUrl this @ js_to_string endpoint,
              req_headers = [(''Authorization'', ''Bearer '' @ token this),
                             (''Content-Type'', ''application/json'')],
              req_data = data,
              req_timeout = None \<rparr>
      in case net request of
           Resolved response \<Rightarrow> (Inr (resp_data response), tr @ [request])
         | Rejected error \<Rightarrow>
             (Inl (Error (''Erro ao comunicar com a Z-API: '' @ err_message error)),
              tr @ [request]))"

definition ZapiService_sendMessage ::
    "ZapiService \<Rightarrow> gateway \<Rightarrow> string \<Rightarrow> string \<Rightarrow> trace \<Rightarrow> (js_exn + jsval) \<times> trace" where
  "ZapiService_sendMessage this net to message tr =
     (let endpoint = JStr ''send-message'';
          data = JObj [(''to'', JStr to), (''message'', JStr message)]
      in sendRequest this net endpoint (Some ''POST'') (Some data) tr)"

definition getMessages :: "ZapiService \<Rightarrow> gateway \<Rightarrow> trace \<Rightarrow> (js_exn + jsval) \<times> trace" where
  "getMessages this net tr =
     (let endpoint = JStr ''get-messages''
      in sendRequest this net endpoint (Some ''GET'') None tr)"

section \<open>MessageService (services/messageService.ts)\<close>

record MessageService =
  zapiService :: ZapiService

definition MessageService_new :: MessageService where
  "MessageService_new = \<lparr> zapiService = ZapiService_new \<rparr>"

definition formatMessage :: "string \<Rightarrow> string" where
  "formatMessage message = trim message"

text \<open>
  \<open>sendMessage(to, message)\<close> calls \<open>sendRequest\<close> with one argument, the object
  \<^verbatim>\<open>{ to, message: formattedMessage }\<close>: that object is the \<open>endpoint\<close> parameter, and
  \<open>method\<close> and \<open>data\<close> are \<open>undefined\<close>.
\<close>

definition MessageService_sendMessage ::
    "MessageService \<Rightarrow> gateway \<Rightarrow> string \<Rightarrow> string \<Rightarrow> trace \<Rightarrow> (js_exn + jsval) \<times> trace" where
  "MessageService_sendMessage this net to message tr =
     (let formattedMessage = formatMessage message
      in sendRequest (zapiService this) net
           (JObj [(''to'', JStr to), (''message'', JStr formattedMessage)]) None None tr)"

text \<open>The console: one entry for every \<^verbatim>\<open>console.log(label, value)\<close>.\<close>

type_synonym console = "(string \<times> jsval) list"

definition MessageService_receiveMessage :: "jsval \<Rightarrow> console \<Rightarrow> (js_exn + unit) \<times> console" where
  "MessageService_receiveMessage data con = (Inr (), con @ [(''Received message:'', data)])"

section \<open>MessagesController.receiveMessage (controllers/appointmentsController.ts)\<close>

datatype reply_body = Text string | Json jsval

record http_reply =
  reply_status :: nat
  reply_body :: reply_body

text \<open>
  The controller awaits \<open>this.messageService.processReceivedMessage(messageData)\<close>, a
  method that \<open>MessageService\<close> does not define; the processing step is a parameter.
  The result type leaves room for an exception that escapes the method.
\<close>

definition MessagesController_receiveMessage ::
    "(jsval \<Rightarrow> console \<Rightarrow> (js_exn + unit) \<times> console) \<Rightarrow> jsval \<Rightarrow> console
     \<Rightarrow> (js_exn + http_reply) \<times> console" where
  "MessagesController_receiveMessage processReceivedMessage messageData con =
     (case processReceivedMessage messageData con of
        (Inr u, con') \<Rightarrow>
          (Inr \<lparr> reply_status = 200, reply_body = Text ''Message received'' \<rparr>, con')
      | (Inl (Error message), con') \<Rightarrow>
          (Inr \<lparr> reply_status = 500, reply_body = Json (JObj [(''error'', JStr message)]) \<rparr>,
           con'))"

section \<open>enviarMensagem (unnamed/part_001)\<close>

text \<open>\<open>process.env\<close> maps a variable name to its text; an unset variable is \<open>undefined\<close>.\<close>

type_synonym env = "string \<Rightarrow> string option"

text \<open>\<^verbatim>\<open>v || fallback\<close> on a string that may be \<open>undefined\<close>: the empty string is falsy too.\<close>

definition or_default :: "string option \<Rightarrow> string \<Rightarrow> string" where
  "or_default v fallback = (case v of None \<Rightarrow> fallback | Some t \<Rightarrow> if t = [] then fallback else t)"

definition INSTANCE_ID :: "env \<Rightarrow> string" where
  "INSTANCE_ID e = or_default (e ''ZAPI_INSTANCE_ID'') ''3E68FAC9BEFB716A85B5B24F68547F08''"

definition TOKEN :: "env \<Rightarrow> string" where
  "TOKEN e = or_default (e ''ZAPI_TOKEN'') ''6ED2B6C9FBB305ACA45EF6ED''"

definition BASE_URL :: "env \<Rightarrow> string" where
  "BASE_URL e = or_default (e ''ZAPI_BASE_URL'') ''https://api.z-api.io''"

definition buildUrl :: "env \<Rightarrow> string" where
  "buildUrl e = BASE_URL e @ ''/instances/'' @ INSTANCE_ID e @ ''/token/'' @ TOKEN e @ ''/send-message''"

text \<open>
  The text of the thrown error: \<^verbatim>\<open>err?.response?.data || err?.message || err\<close>, kept as
  it is when it is a string and serialised otherwise.
\<close>

definition messageErr :: "axios_error \<Rightarrow> string" where
  "messageErr err =
     (case (case err_response err of None \<Rightarrow> None | Some r \<Rightarrow> Some (resp_data r)) of
        Some d \<Rightarrow>
          if truthy d then (case d of JStr t \<Rightarrow> t | _ \<Rightarrow> JSON_stringify d)
          else if err_message err \<noteq> [] then err_message err
          else JSON_stringify (err_json err)
      | None \<Rightarrow>
          if err_message err \<noteq> [] then err_message err
          else JSON_stringify (err_json err))"

definition enviarMensagem ::
    "env \<Rightarrow> gateway \<Rightarrow> string \<Rightarrow> string \<Rightarrow> trace \<Rightarrow> (js_exn + jsval) \<times> trace" where
  "enviarMensagem e net phone message tr =
     (let url = buildUrl e;
          payload = JObj [(''phone'', JStr phone), (''message'', JStr message)];
          request =
            \<lparr> req_method = Some ''post'', req_url = url, req_headers = [],
              req_data = Some payload, req_timeout = Some 10000 \<rparr>
      in case net request of
           Resolved resp \<Rightarrow> (Inr (resp_data resp), tr @ [request])
         | Rejected err \<Rightarrow> (Inl (Error (messageErr err)), tr @ [request]))"

section \<open>Example data\<close>

text \<open>The record and the patch of the update example, and two more records.\<close>

definition appt_A :: Appointment where
  "appt_A = \<lparr> appt_id = ''1'', clientName = ''A'', date = ''2024-01-01'', time = ''10:00'',
              notes = None \<rparr>"

definition appt_B :: Appointment where
  "appt_B = \<lparr> appt_id = ''1'', clientName = ''B'', date = ''2024-02-02'', time = ''09:00'',
              notes = None \<rparr>"

definition appt_C :: Appointment where
  "appt_C = \<lparr> appt_id = ''2'', clientName = ''C'', date = ''2024-03-03'', time = ''14:30'',
              notes = Some ''first visit'' \<rparr>"

definition patch_time :: AppointmentPatch where
  "patch_time = \<lparr> p_id = None, p_clientName = None, p_date = None, p_time = Some ''11:00'',
                  p_notes = None \<rparr>"

text \<open>
  Four gateways: one that accepts every request, one that answers every request with
  HTTP 401 and the body \<^verbatim>\<open>{"error":"invalid token"}\<close>, one that never answers in time
  (the 10000 ms of \<open>enviarMensagem\<close>), and one whose host name does not resolve.
\<close>

definition gateway_ok :: gateway where
  "gateway_ok q = Resolved \<lparr> resp_status = 200, resp_data = JObj [(''success'', JBool True)] \<rparr>"

definition gateway_401 :: gateway where
  "gateway_401 q =
     Rejected \<lparr> err_message = ''Request failed with status code 401'',
                err_response =
                  Some \<lparr> resp_status = 401, resp_data = JObj [(''error'', JStr ''invalid token'')] \<rparr>,
                err_json = JObj [(''message'', JStr ''Request failed with status code 401''),
                                 (''name'', JStr ''AxiosError''),
                                 (''code'', JStr ''ERR_BAD_REQUEST''),
                                 (''status'', JNum 401)] \<rparr>"

definition gateway_timeout :: gateway where
  "gateway_timeout q =
     Rejected \<lparr> err_message = ''timeout of 10000ms exceeded'',
                err_response = None,
                err_json = JObj [(''message'', JStr ''timeout of 10000ms exceeded''),
                                 (''name'', JStr ''AxiosError''),
                                 (''code'', JStr ''ECONNABORTED'')] \<rparr>"

definition gateway_unreachable :: gateway where
  "gateway_unreachable q =
     Rejected \<lparr> err_message = ''getaddrinfo ENOTFOUND api.z-api.io'',
                err_response = None,
                err_json = JObj [(''message'', JStr ''getaddrinfo ENOTFOUND api.z-api.io''),
                                 (''name'', JStr ''AxiosError''),
                                 (''code'', JStr ''ENOTFOUND'')] \<rparr>"

text \<open>An environment with no variable set, and a processing step that throws.\<close>

definition no_env :: env where
  "no_env name = None"

definition process_boom :: "jsval \<Rightarrow> console \<Rightarrow> (js_exn + unit) \<times> console" where
  "process_boom messageData con = (Inl (Error ''boom''), con)"

section \<open>Properties of the search and of the removal\<close>

lemma findIndex_from_none:
  "\<forall>x \<in> set xs. \<not> P x \<Longrightarrow> findIndex_from P xs k = - 1"
  by (induction xs arbitrary: k) auto

lemma findIndex_from_first:
  "\<forall>x \<in> set pre. \<not> P x \<Longrightarrow> P a \<Longrightarrow>
   findIndex_from P (pre @ a # post) k = k + int (length pre)"
  by (induction pre arbitrary: k) auto

lemma findIndex_none: "\<forall>x \<in> set xs. \<not> P x \<Longrightarrow> findIndex P xs = - 1"
  by (simp add: findIndex_def findIndex_from_none)

lemma findIndex_first:
  "\<forall>x \<in> set pre. \<not> P x \<Longrightarrow> P a \<Longrightarrow> findIndex P (pre @ a # post) = int (length pre)"
  by (simp add: findIndex_def findIndex_from_first)

lemma splice_one: "splice (pre @ a # post) (int (length pre)) 1 = pre @ post"
proof -
  have "nat (int (length pre) + 1) = Suc (length pre)"
    by simp
  then show ?thesis
    by (simp add: splice_def Let_def)
qed

lemma update_first:
  assumes "\<forall>x \<in> set pre. appt_id x \<noteq> i" and "appt_id a = i"
  shows "updateAppointment i p (pre @ a # post) = (Some (spread a p), pre @ spread a p # post)"
proof -
  have "findIndex (\<lambda>app. appt_id app = i) (pre @ a # post) = int (length pre)"
    using assms by (intro findIndex_first) auto
  then show ?thesis
    by (simp add: updateAppointment_def Let_def)
qed

lemma cancel_first:
  assumes "\<forall>x \<in> set pre. appt_id x \<noteq> i" and "appt_id a = i"
  shows "cancelAppointment i (pre @ a # post) = (True, pre @ post)"
proof -
  have "findIndex (\<lambda>app. appt_id app = i) (pre @ a # post) = int (length pre)"
    using assms by (intro findIndex_first) auto
  then show ?thesis
    by (simp add: cancelAppointment_def Let_def splice_one)
qed

lemma update_absent:
  "\<forall>x \<in> set s. appt_id x \<noteq> i \<Longrightarrow> updateAppointment i p s = (None, s)"
  by (simp add: updateAppointment_def Let_def findIndex_none)

lemma cancel_absent:
  "\<forall>x \<in> set s. appt_id x \<noteq> i \<Longrightarrow> cancelAppointment i s = (False, s)"
  by (simp add: cancelAppointment_def Let_def findIndex_none)

lemma first_match_split:
  "(\<forall>x \<in> set s. appt_id x \<noteq> i)
   \<or> (\<exists>pre a post. s = pre @ a # post \<and> appt_id a = i \<and> (\<forall>x \<in> set pre. appt_id x \<noteq> i))"
proof (cases "\<exists>x \<in> set s. appt_id x = i")
  case True
  then obtain pre a post where "s = pre @ a # post" "appt_id a = i" "\<forall>x \<in> set pre. appt_id x \<noteq> i"
    using split_list_first_prop [of s "\<lambda>x. appt_id x = i"] by blast
  then show ?thesis by blast
next
  case False
  then show ?thesis by blast
qed

section \<open>Update merges the patch into the first record with the identifier\<close>

lemma spread_fields:
  "appt_id (spread a p) = (case p_id p of Some v \<Rightarrow> v | None \<Rightarrow> appt_id a)"
  "clientName (spread a p) = (case p_clientName p of Some v \<Rightarrow> v | None \<Rightarrow> clientName a)"
  "date (spread a p) = (case p_date p of Some v \<Rightarrow> v | None \<Rightarrow> date a)"
  "time (spread a p) = (case p_time p of Some v \<Rightarrow> v | None \<Rightarrow> time a)"
  "notes (spread a p) = (case p_notes p of Some v \<Rightarrow> Some v | None \<Rightarrow> notes a)"
  by (simp_all add: spread_def)

text \<open>
  Claim C7. When \<open>a\<close> is the first stored record whose \<open>id\<close> is \<open>i\<close>, \<open>update(i, patch)\<close>
  returns the merged record and stores it in the place of \<open>a\<close>, every other record
  staying where it was. In the merged record a field that the patch supplies has the
  patch's value, and a field that the patch does not supply has the value it had in \<open>a\<close>.
\<close>

theorem update_overwrites_only_supplied_fields:
  assumes "\<forall>x \<in> set pre. appt_id x \<noteq> i" and "appt_id a = i"
  shows "updateAppointment i p (pre @ a # post) = (Some (spread a p), pre @ spread a p # post)
    \<and> (p_id p = None \<longrightarrow> appt_id (spread a p) = appt_id a)
    \<and> (p_clientName p = None \<longrightarrow> clientName (spread a p) = clientName a)
    \<and> (p_date p = None \<longrightarrow> date (spread a p) = date a)
    \<and> (p_time p = None \<longrightarrow> time (spread a p) = time a)
    \<and> (p_notes p = None \<longrightarrow> notes (spread a p) = notes a)
    \<and> (\<forall>v. p_id p = Some v \<longrightarrow> appt_id (spread a p) = v)
    \<and> (\<forall>v. p_clientName p = Some v \<longrightarrow> clientName (spread a p) = v)
    \<and> (\<forall>v. p_date p = Some v \<longrightarrow> date (spread a p) = v)
    \<and> (\<forall>v. p_time p = Some v \<longrightarrow> time (spread a p) = v)
    \<and> (\<forall>v. p_notes p = Some v \<longrightarrow> notes (spread a p) = Some v)"
  using update_first [OF assms] by (simp add: spread_fields)

text \<open>
  The example of the specification: the record \<open>A\<close>, \<open>2024-01-01\<close>, \<open>10:00\<close> updated with
  the patch that holds only the time \<open>11:00\<close>.
\<close>

theorem update_overwrites_only_supplied_fields_witness:
  "updateAppointment ''1'' patch_time [appt_A]
     = (Some \<lparr> appt_id = ''1'', clientName = ''A'', date = ''2024-01-01'', time = ''11:00'',
               notes = None \<rparr>,
        [\<lparr> appt_id = ''1'', clientName = ''A'', date = ''2024-01-01'', time = ''11:00'',
           notes = None \<rparr>])"
proof -
  have h1: "\<forall>x \<in> set []. appt_id x \<noteq> ''1''" by simp
  have h2: "appt_id appt_A = ''1''" by (simp add: appt_A_def)
  show ?thesis
    using update_overwrites_only_supplied_fields [OF h1 h2, of patch_time "[]"]
    by (simp add: spread_def appt_A_def patch_time_def)
qed

section \<open>Identifiers that are not stored, and the removal of the first match\<close>

text \<open>
  Claim C10. When no stored record has the \<open>id\<close>, \<open>update\<close> returns \<open>null\<close> (\<open>None\<close>) and
  \<open>cancel\<close> returns \<open>false\<close>, and the stored list is the same afterwards. When some record
  has the \<open>id\<close>, the list splits at the first such record, and \<open>cancel\<close> returns \<open>true\<close>
  and leaves the records before it followed by the records after it, in their order.
\<close>

theorem not_found_changes_nothing_and_cancel_removes_first:
  "((\<forall>x \<in> set s. appt_id x \<noteq> i) \<longrightarrow>
      updateAppointment i p s = (None, s) \<and> cancelAppointment i s = (False, s))
   \<and> ((\<exists>x \<in> set s. appt_id x = i) \<longrightarrow>
      (\<exists>pre a post. s = pre @ a # post \<and> appt_id a = i \<and> (\<forall>x \<in> set pre. appt_id x \<noteq> i)
         \<and> cancelAppointment i s = (True, pre @ post)))"
proof (intro conjI impI)
  assume "\<forall>x \<in> set s. appt_id x \<noteq> i"
  then show "updateAppointment i p s = (None, s)" by (rule update_absent)
next
  assume "\<forall>x \<in> set s. appt_id x \<noteq> i"
  then show "cancelAppointment i s = (False, s)" by (rule cancel_absent)
next
  assume "\<exists>x \<in> set s. appt_id x = i"
  then obtain pre a post
    where split: "s = pre @ a # post" "appt_id a = i" "\<forall>x \<in> set pre. appt_id x \<noteq> i"
    using first_match_split [of s i] by blast
  have "cancelAppointment i s = (True, pre @ post)"
    using cancel_first [OF split(3) split(2)] split(1) by simp
  with split show "\<exists>pre a post. s = pre @ a # post \<and> appt_id a = i
      \<and> (\<forall>x \<in> set pre. appt_id x \<noteq> i) \<and> cancelAppointment i s = (True, pre @ post)"
    by blast
qed

text \<open>
  A store where the first and the last record share the \<open>id\<close> \<open>1\<close>: the \<open>id\<close> \<open>9\<close> is not
  stored, and canceling \<open>1\<close> removes the first record only.
\<close>

theorem not_found_changes_nothing_and_cancel_removes_first_witness:
  "''9'' \<notin> set (map appt_id [appt_A, appt_C, appt_B])
   \<and> updateAppointment ''9'' patch_time [appt_A, appt_C, appt_B] = (None, [appt_A, appt_C, appt_B])
   \<and> cancelAppointment ''9'' [appt_A, appt_C, appt_B] = (False, [appt_A, appt_C, appt_B])
   \<and> (\<exists>x \<in> set [appt_A, appt_C, appt_B]. appt_id x = ''1'')
   \<and> cancelAppointment ''1'' [appt_A, appt_C, appt_B] = (True, [appt_C, appt_B])"
proof -
  let ?s = "[appt_A, appt_C, appt_B]"
  have absent: "\<forall>x \<in> set ?s. appt_id x \<noteq> ''9''"
    by (simp add: appt_A_def appt_B_def appt_C_def)
  have present: "\<exists>x \<in> set ?s. appt_id x = ''1''"
    by (simp add: appt_A_def)
  have nf: "updateAppointment ''9'' patch_time ?s = (None, ?s) \<and> cancelAppointment ''9'' ?s = (False, ?s)"
    using not_found_changes_nothing_and_cancel_removes_first [of ?s "''9''" patch_time] absent
    by blast
  obtain pre a post where split: "?s = pre @ a # post" "appt_id a = ''1''"
      "\<forall>x \<in> set pre. appt_id x \<noteq> ''1''" "cancelAppointment ''1'' ?s = (True, pre @ post)"
    using not_found_changes_nothing_and_cancel_removes_first [of ?s "''1''" patch_time] present
    by blast
  have "pre = []"
  proof (cases pre)
    case Nil
    then show ?thesis .
  next
    case (Cons x xs)
    with split(1) have "x = appt_A" by simp
    with Cons split(3) show ?thesis by (simp add: appt_A_def)
  qed
  with split(1) have "post = [appt_C, appt_B]" by simp
  with \<open>pre = []\<close> split(4) have "cancelAppointment ''1'' ?s = (True, [appt_C, appt_B])" by simp
  moreover have "''9'' \<notin> set (map appt_id ?s)"
    by (simp add: appt_A_def appt_B_def appt_C_def)
  ultimately show ?thesis
    using present nf by blast
qed

section \<open>Scheduling, listing and canceling\<close>

text \<open>
  Claim C8, as amended. \<open>schedule\<close> assigns no identifier and checks none: it returns the
  record it was given and appends it to the list, so the listing afterwards is the
  listing before followed by the new record, with the \<open>id\<close> the caller chose. When no
  stored record had that \<open>id\<close>, the new record is the only one with it, canceling the
  \<open>id\<close> returns \<open>true\<close> and gives back the store as it was before, and the listing no
  longer includes the record.
\<close>

theorem schedule_list_cancel_round_trip:
  "fst (scheduleAppointment a s) = a
   \<and> getAppointments (snd (scheduleAppointment a s)) = getAppointments s @ [a]
   \<and> (appt_id a \<notin> set (map appt_id s) \<longrightarrow>
        filter (\<lambda>x. appt_id x = appt_id a) (getAppointments (snd (scheduleAppointment a s))) = [a]
        \<and> cancelAppointment (appt_id a) (snd (scheduleAppointment a s)) = (True, s)
        \<and> a \<notin> set (getAppointments
                      (snd (cancelAppointment (appt_id a) (snd (scheduleAppointment a s))))))"
proof (intro conjI impI)
  show "fst (scheduleAppointment a s) = a"
    by (simp add: scheduleAppointment_def)
  show "getAppointments (snd (scheduleAppointment a s)) = getAppointments s @ [a]"
    by (simp add: scheduleAppointment_def getAppointments_def)
next
  assume fresh: "appt_id a \<notin> set (map appt_id s)"
  then have none: "\<forall>x \<in> set s. appt_id x \<noteq> appt_id a"
    by (metis image_eqI set_map)
  then have "filter (\<lambda>x. appt_id x = appt_id a) s = []"
    by (simp add: filter_empty_conv)
  then show "filter (\<lambda>x. appt_id x = appt_id a) (getAppointments (snd (scheduleAppointment a s))) = [a]"
    by (simp add: scheduleAppointment_def getAppointments_def)
  have cancel: "cancelAppointment (appt_id a) (s @ [a]) = (True, s)"
    using cancel_first [OF none, of a "[]"] by simp
  then show "cancelAppointment (appt_id a) (snd (scheduleAppointment a s)) = (True, s)"
    by (simp add: scheduleAppointment_def)
  from none have "a \<notin> set s"
    by auto
  with cancel show "a \<notin> set (getAppointments
      (snd (cancelAppointment (appt_id a) (snd (scheduleAppointment a s)))))"
    by (simp add: scheduleAppointment_def getAppointments_def)
qed

text \<open>Scheduling the record \<open>C\<close> (\<open>id\<close> \<open>2\<close>) into the store that holds \<open>A\<close> (\<open>id\<close> \<open>1\<close>).\<close>

theorem schedule_list_cancel_round_trip_witness:
  "appt_id appt_C \<notin> set (map appt_id [appt_A])
   \<and> getAppointments (snd (scheduleAppointment appt_C [appt_A])) = [appt_A, appt_C]
   \<and> cancelAppointment ''2'' [appt_A, appt_C] = (True, [appt_A])
   \<and> appt_C \<notin> set [appt_A]"
proof -
  have fresh: "appt_id appt_C \<notin> set (map appt_id [appt_A])"
    by (simp add: appt_A_def appt_C_def)
  show ?thesis
    using schedule_list_cancel_round_trip [of appt_C "[appt_A]"] fresh
    by (simp add: scheduleAppointment_def getAppointments_def appt_A_def appt_C_def)
qed

text \<open>
  The claim as written fails when the caller's \<open>id\<close> is already stored: after
  scheduling \<open>B\<close> (\<open>id\<close> \<open>1\<close>) into the store that holds \<open>A\<close> (\<open>id\<close> \<open>1\<close>) the identifiers
  of the listing are not distinct, and canceling \<open>1\<close> removes \<open>A\<close> and leaves \<open>B\<close> listed.
\<close>

theorem schedule_list_cancel_round_trip_counterexample:
  "\<not> distinct (map appt_id (getAppointments (snd (scheduleAppointment appt_B [appt_A]))))
   \<and> appt_B \<in> set (getAppointments
        (snd (cancelAppointment (appt_id appt_B) (snd (scheduleAppointment appt_B [appt_A])))))"
  by (simp add: scheduleAppointment_def getAppointments_def cancelAppointment_def findIndex_def
      splice_def appt_A_def appt_B_def)

section \<open>Uniqueness of identifiers\<close>

lemma schedule_distinct:
  "distinct (map appt_id s) \<Longrightarrow> appt_id a \<notin> set (map appt_id s) \<Longrightarrow>
   distinct (map appt_id (snd (scheduleAppointment a s)))"
  by (simp add: scheduleAppointment_def)

lemma cancel_distinct:
  assumes "distinct (map appt_id s)"
  shows "distinct (map appt_id (snd (cancelAppointment i s)))"
proof -
  from first_match_split [of s i] show ?thesis
  proof
    assume "\<forall>x \<in> set s. appt_id x \<noteq> i"
    then show ?thesis
      using assms by (simp add: cancel_absent)
  next
    assume "\<exists>pre a post. s = pre @ a # post \<and> appt_id a = i \<and> (\<forall>x \<in> set pre. appt_id x \<noteq> i)"
    then obtain pre a post
      where split: "s = pre @ a # post" "appt_id a = i" "\<forall>x \<in> set pre. appt_id x \<noteq> i"
      by blast
    have "cancelAppointment i s = (True, pre @ post)"
      using cancel_first [OF split(3) split(2)] split(1) by simp
    with assms split(1) show ?thesis
      by auto
  qed
qed

lemma update_distinct:
  assumes "distinct (map appt_id s)"
    and "case p_id p of None \<Rightarrow> True | Some j \<Rightarrow> j = i \<or> j \<notin> set (map appt_id s)"
  shows "distinct (map appt_id (snd (updateAppointment i p s)))"
proof -
  from first_match_split [of s i] show ?thesis
  proof
    assume "\<forall>x \<in> set s. appt_id x \<noteq> i"
    then show ?thesis
      using assms(1) by (simp add: update_absent)
  next
    assume "\<exists>pre a post. s = pre @ a # post \<and> appt_id a = i \<and> (\<forall>x \<in> set pre. appt_id x \<noteq> i)"
    then obtain pre a post
      where split: "s = pre @ a # post" "appt_id a = i" "\<forall>x \<in> set pre. appt_id x \<noteq> i"
      by blast
    have upd: "updateAppointment i p s = (Some (spread a p), pre @ spread a p # post)"
      using update_first [OF split(3) split(2)] split(1) by simp
    show ?thesis
    proof (cases "p_id p")
      case None
      then have "appt_id (spread a p) = appt_id a"
        by (simp add: spread_fields)
      with upd assms(1) split(1) show ?thesis
        by simp
    next
      case (Some j)
      then have idj: "appt_id (spread a p) = j"
        by (simp add: spread_fields)
      from Some assms(2) have "j = i \<or> j \<notin> set (map appt_id s)"
        by simp
      then show ?thesis
      proof
        assume "j = i"
        with idj split(2) have "appt_id (spread a p) = appt_id a"
          by simp
        with upd assms(1) split(1) show ?thesis
          by simp
      next
        assume "j \<notin> set (map appt_id s)"
        with idj upd assms(1) split(1) show ?thesis
          by auto
      qed
    qed
  qed
qed

text \<open>
  Claim C9, as amended. The store itself accepts any identifier. Starting from a store
  whose identifiers are distinct (the empty store is one), every sequence of operations
  that follows \<open>fresh_ids\<close> (a scheduled record brings an \<open>id\<close> that is not stored; a
  patch has no \<open>id\<close>, or the \<open>id\<close> it is addressed to, or one that is not stored;
  cancels are free) ends in a store where no two records share an \<open>id\<close>.
\<close>

theorem fresh_ids_keep_ids_distinct:
  "distinct (map appt_id s) \<Longrightarrow> fresh_ids ops s \<Longrightarrow> distinct (map appt_id (run ops s))"
proof (induction ops arbitrary: s)
  case Nil
  then show ?case by simp
next
  case (Cons x xs)
  show ?case
  proof (cases x)
    case (Schedule a)
    with Cons.prems have "distinct (map appt_id (apply_op x s))" "fresh_ids xs (apply_op x s)"
      by (simp_all add: schedule_distinct)
    then show ?thesis
      using Cons.IH by simp
  next
    case (Update i p)
    with Cons.prems have "distinct (map appt_id (apply_op x s))" "fresh_ids xs (apply_op x s)"
      by (simp_all add: update_distinct)
    then show ?thesis
      using Cons.IH by simp
  next
    case (Cancel i)
    with Cons.prems have "distinct (map appt_id (apply_op x s))" "fresh_ids xs (apply_op x s)"
      by (simp_all add: cancel_distinct)
    then show ?thesis
      using Cons.IH by simp
  qed
qed

text \<open>From the empty store: schedule \<open>A\<close>, schedule \<open>C\<close>, move \<open>A\<close> to 11:00, cancel \<open>C\<close>.\<close>

theorem fresh_ids_keep_ids_distinct_witness:
  "distinct (map appt_id [])
   \<and> fresh_ids [Schedule appt_A, Schedule appt_C, Update ''1'' patch_time, Cancel ''2''] []
   \<and> distinct (map appt_id
        (run [Schedule appt_A, Schedule appt_C, Update ''1'' patch_time, Cancel ''2''] []))"
proof -
  have d: "distinct (map appt_id [])"
    by simp
  have f: "fresh_ids [Schedule appt_A, Schedule appt_C, Update ''1'' patch_time, Cancel ''2''] []"
    by (simp add: scheduleAppointment_def updateAppointment_def findIndex_def spread_def
        appt_A_def appt_C_def patch_time_def)
  show ?thesis
    using fresh_ids_keep_ids_distinct [OF d f] d f by blast
qed

text \<open>
  The claim as written fails: two schedule operations with the same \<open>id\<close> are a
  sequence of operations, and they leave two records that share it.
\<close>

theorem ids_distinct_counterexample:
  "\<not> distinct (map appt_id (run [Schedule appt_A, Schedule appt_B] []))"
  by (simp add: scheduleAppointment_def appt_A_def appt_B_def)

section \<open>Trimming\<close>

lemma trim_blank: "list_all is_whitespace s \<Longrightarrow> trim s = []"
proof -
  assume "list_all is_whitespace s"
  then have blank: "dropWhile is_whitespace s = []"
    by (induction s) auto
  show ?thesis
    unfolding trim_def blank by simp
qed

lemma rev_dropWhile_takeWhile:
  "rev (dropWhile P (rev xs)) @ rev (takeWhile P (rev xs)) = xs"
proof -
  have "rev (dropWhile P (rev xs)) @ rev (takeWhile P (rev xs))
      = rev (takeWhile P (rev xs) @ dropWhile P (rev xs))"
    by (simp only: rev_append)
  also have "\<dots> = rev (rev xs)"
    by (simp only: takeWhile_dropWhile_id)
  finally show ?thesis
    by simp
qed

lemma trim_decompose:
  "\<exists>l r. s = l @ trim s @ r \<and> list_all is_whitespace l \<and> list_all is_whitespace r"
proof -
  let ?m = "dropWhile is_whitespace s"
  let ?l = "takeWhile is_whitespace s"
  let ?r = "rev (takeWhile is_whitespace (rev ?m))"
  have m: "?m = trim s @ ?r"
    by (simp only: trim_def rev_dropWhile_takeWhile)
  have "s = ?l @ ?m"
    by simp
  with m have "s = ?l @ trim s @ ?r"
    by simp
  moreover have "list_all is_whitespace ?l"
    by (simp add: list_all_iff) (meson set_takeWhileD)
  moreover have "list_all is_whitespace ?r"
    by (simp add: list_all_iff) (meson set_takeWhileD)
  ultimately show ?thesis
    by blast
qed

lemma trim_ends:
  assumes "trim s \<noteq> []"
  shows "\<not> is_whitespace (hd (trim s))" and "\<not> is_whitespace (last (trim s))"
proof -
  let ?m = "dropWhile is_whitespace s"
  let ?d = "dropWhile is_whitespace (rev ?m)"
  from assms have d: "?d \<noteq> []"
    by (simp add: trim_def)
  then have "\<not> is_whitespace (hd ?d)"
    by (rule hd_dropWhile)
  moreover have "last (trim s) = hd ?d"
    using d by (simp add: trim_def last_rev)
  ultimately show "\<not> is_whitespace (last (trim s))"
    by simp
  have m: "?m = trim s @ rev (takeWhile is_whitespace (rev ?m))"
    by (simp only: trim_def rev_dropWhile_takeWhile)
  with assms have "?m \<noteq> []"
    by (metis append_is_Nil_conv)
  then have "\<not> is_whitespace (hd ?m)"
    by (rule hd_dropWhile)
  moreover from m assms have "hd ?m = hd (trim s)"
    by (metis hd_append2)
  ultimately show "\<not> is_whitespace (hd (trim s))"
    by simp
qed

section \<open>One request for every call of the gateway client\<close>

lemma sendRequest_result:
  "\<exists>q. snd (sendRequest this net endpoint m d tr) = tr @ [q]
     \<and> fst (sendRequest this net endpoint m d tr)
         = (case net q of
              Resolved response \<Rightarrow> Inr (resp_data response)
            | Rejected error \<Rightarrow> Inl (Error (''Erro ao comunicar com a Z-API: '' @ err_message error)))"
  by (simp add: sendRequest_def Let_def split: axios_outcome.split)

lemma enviarMensagem_result:
  "\<exists>q. snd (enviarMensagem e net phone message tr) = tr @ [q]
     \<and> req_url q = buildUrl e
     \<and> fst (enviarMensagem e net phone message tr)
         = (case net q of
              Resolved resp \<Rightarrow> Inr (resp_data resp)
            | Rejected err \<Rightarrow> Inl (Error (messageErr err)))"
  by (simp add: enviarMensagem_def Let_def split: axios_outcome.split)

section \<open>Failures of the gateway\<close>

text \<open>
  Claim C1, as amended. Every call of \<open>sendRequest\<close> and of \<open>enviarMensagem\<close> issues
  one request. When the HTTP client resolves, the call returns the data of the response.
  When it rejects (a non-2xx answer or a transport failure), the call throws a new
  \<open>Error\<close>: the failure leaves the client as an exception, and no value is returned.
\<close>

theorem gateway_failure_is_thrown:
  "(\<exists>q. snd (sendRequest this net endpoint m d tr) = tr @ [q]
      \<and> (case net q of
            Resolved response \<Rightarrow>
              fst (sendRequest this net endpoint m d tr) = Inr (resp_data response)
          | Rejected error \<Rightarrow>
              isl (fst (sendRequest this net endpoint m d tr))))
   \<and> (\<exists>q. snd (enviarMensagem e net phone message tr) = tr @ [q]
      \<and> (case net q of
            Resolved resp \<Rightarrow>
              fst (enviarMensagem e net phone message tr) = Inr (resp_data resp)
          | Rejected err \<Rightarrow>
              isl (fst (enviarMensagem e net phone message tr))))"
proof
  from sendRequest_result [of this net endpoint m d tr]
  obtain q where "snd (sendRequest this net endpoint m d tr) = tr @ [q]"
    and "fst (sendRequest this net endpoint m d tr)
           = (case net q of
                Resolved response \<Rightarrow> Inr (resp_data response)
              | Rejected error \<Rightarrow> Inl (Error (''Erro ao comunicar com a Z-API: '' @ err_message error)))"
    by blast
  then show "\<exists>q. snd (sendRequest this net endpoint m d tr) = tr @ [q]
      \<and> (case net q of
            Resolved response \<Rightarrow>
              fst (sendRequest this net endpoint m d tr) = Inr (resp_data response)
          | Rejected error \<Rightarrow>
              isl (fst (sendRequest this net endpoint m d tr)))"
    by (cases "net q") auto
next
  from enviarMensagem_result [of e net phone message tr]
  obtain q where "snd (enviarMensagem e net phone message tr) = tr @ [q]"
    and "fst (enviarMensagem e net phone message tr)
           = (case net q of
                Resolved resp \<Rightarrow> Inr (resp_data resp)
              | Rejected err \<Rightarrow> Inl (Error (messageErr err)))"
    by blast
  then show "\<exists>q. snd (enviarMensagem e net phone message tr) = tr @ [q]
      \<and> (case net q of
            Resolved resp \<Rightarrow>
              fst (enviarMensagem e net phone message tr) = Inr (resp_data resp)
          | Rejected err \<Rightarrow>
              isl (fst (enviarMensagem e net phone message tr)))"
    by (cases "net q") auto
qed

text \<open>
  A gateway that accepts the request: both calls return the data of the response. A
  gateway that answers 401: both calls end in an exception.
\<close>

theorem gateway_failure_is_thrown_witness:
  "fst (sendRequest ZapiService_new gateway_ok (JStr ''get-messages'') (Some ''GET'') None [])
     = Inr (JObj [(''success'', JBool True)])
   \<and> fst (enviarMensagem no_env gateway_ok ''5511999998888'' ''oi'' [])
     = Inr (JObj [(''success'', JBool True)])
   \<and> isl (fst (sendRequest ZapiService_new gateway_401 (JStr ''get-messages'') (Some ''GET'') None []))
   \<and> isl (fst (enviarMensagem no_env gateway_401 ''5511999998888'' ''oi'' []))"
  using gateway_failure_is_thrown
    [of ZapiService_new gateway_ok "JStr ''get-messages''" "Some ''GET''" None "[]"
        no_env "''5511999998888''" "''oi''"]
    gateway_failure_is_thrown
    [of ZapiService_new gateway_401 "JStr ''get-messages''" "Some ''GET''" None "[]"
        no_env "''5511999998888''" "''oi''"]
  by (simp add: gateway_ok_def gateway_401_def)

text \<open>
  The claim as written fails: with a gateway that cannot be reached (a network failure),
  \<open>ZapiService.sendMessage\<close> (through \<open>sendRequest\<close>) and \<open>enviarMensagem\<close> end in a
  thrown \<open>Error\<close>.
\<close>

theorem gateway_failure_is_thrown_counterexample:
  "fst (ZapiService_sendMessage ZapiService_new gateway_unreachable ''5511999998888'' ''oi'' [])
     = Inl (Error ''Erro ao comunicar com a Z-API: getaddrinfo ENOTFOUND api.z-api.io'')
   \<and> fst (enviarMensagem no_env gateway_unreachable ''5511999998888'' ''oi'' [])
     = Inl (Error ''getaddrinfo ENOTFOUND api.z-api.io'')"
  by (simp add: ZapiService_sendMessage_def sendRequest_def enviarMensagem_def messageErr_def
      gateway_unreachable_def Let_def)

section \<open>The text of the thrown error\<close>

lemma messageErr_string:
  "err_response err = Some r \<Longrightarrow> resp_data r = JStr t \<Longrightarrow> t \<noteq> [] \<Longrightarrow> messageErr err = t"
  by (simp add: messageErr_def)

lemma messageErr_data:
  "err_response err = Some r \<Longrightarrow> truthy (resp_data r) \<Longrightarrow> \<forall>t. resp_data r \<noteq> JStr t \<Longrightarrow>
   messageErr err = JSON_stringify (resp_data r)"
  by (cases "resp_data r") (simp_all add: messageErr_def)

lemma messageErr_no_data:
  assumes "err_response err = None \<or> (\<exists>r. err_response err = Some r \<and> \<not> truthy (resp_data r))"
  shows "messageErr err = (if err_message err \<noteq> [] then err_message err
                           else JSON_stringify (err_json err))"
  using assms by (auto simp: messageErr_def)

text \<open>
  Claim C5, as amended. For every gateway failure the text of the \<open>Error\<close> that
  \<open>enviarMensagem\<close> throws is chosen in this order: the body of the response when there
  is one and it is truthy (as it is when it is a string, serialised with
  \<open>JSON.stringify\<close> otherwise); else the message of the transport error when it is
  not empty; else the serialised error object. \<open>sendRequest\<close> throws
  \<open>Erro ao comunicar com a Z-API: \<close> followed by the message of the transport error.
\<close>

theorem thrown_error_text_precedence:
  "(snd (enviarMensagem e net phone message tr) = tr @ [q] \<and> net q = Rejected err \<longrightarrow>
      fst (enviarMensagem e net phone message tr) = Inl (Error (messageErr err)))
   \<and> (\<forall>r t. err_response err = Some r \<and> resp_data r = JStr t \<and> t \<noteq> [] \<longrightarrow>
        messageErr err = t)
   \<and> (\<forall>r. err_response err = Some r \<and> truthy (resp_data r) \<and> (\<forall>t. resp_data r \<noteq> JStr t) \<longrightarrow>
        messageErr err = JSON_stringify (resp_data r))
   \<and> ((err_response err = None \<or> (\<exists>r. err_response err = Some r \<and> \<not> truthy (resp_data r)))
        \<and> err_message err \<noteq> [] \<longrightarrow>
        messageErr err = err_message err)
   \<and> ((err_response err = None \<or> (\<exists>r. err_response err = Some r \<and> \<not> truthy (resp_data r)))
        \<and> err_message err = [] \<longrightarrow>
        messageErr err = JSON_stringify (err_json err))
   \<and> (snd (sendRequest this net endpoint m d tr) = tr @ [q'] \<and> net q' = Rejected err \<longrightarrow>
        fst (sendRequest this net endpoint m d tr)
          = Inl (Error (''Erro ao comunicar com a Z-API: '' @ err_message err)))"
proof (intro conjI impI allI)
  assume "snd (enviarMensagem e net phone message tr) = tr @ [q] \<and> net q = Rejected err"
  with enviarMensagem_result [of e net phone message tr]
  show "fst (enviarMensagem e net phone message tr) = Inl (Error (messageErr err))"
    by auto
next
  fix r t
  assume "err_response err = Some r \<and> resp_data r = JStr t \<and> t \<noteq> []"
  then show "messageErr err = t"
    by (simp add: messageErr_string)
next
  fix r
  assume "err_response err = Some r \<and> truthy (resp_data r) \<and> (\<forall>t. resp_data r \<noteq> JStr t)"
  then show "messageErr err = JSON_stringify (resp_data r)"
    by (simp add: messageErr_data)
next
  assume "(err_response err = None \<or> (\<exists>r. err_response err = Some r \<and> \<not> truthy (resp_data r)))
      \<and> err_message err \<noteq> []"
  then show "messageErr err = err_message err"
    using messageErr_no_data [of err] by simp
next
  assume "(err_response err = None \<or> (\<exists>r. err_response err = Some r \<and> \<not> truthy (resp_data r)))
      \<and> err_message err = []"
  then show "messageErr err = JSON_stringify (err_json err)"
    using messageErr_no_data [of err] by simp
next
  assume "snd (sendRequest this net endpoint m d tr) = tr @ [q'] \<and> net q' = Rejected err"
  with sendRequest_result [of this net endpoint m d tr]
  show "fst (sendRequest this net endpoint m d tr)
      = Inl (Error (''Erro ao comunicar com a Z-API: '' @ err_message err))"
    by auto
qed

text \<open>
  A transport failure without a response gives the message of the transport error, and
  the body of the HTTP 401 answer, an object, is serialised.
\<close>

theorem thrown_error_text_precedence_witness:
  \<open>fst (enviarMensagem no_env gateway_timeout ''5511988887777'' ''lembrete'' [])
     = Inl (Error ''timeout of 10000ms exceeded'')
   \<and> messageErr
        \<lparr> err_message = ''Request failed with status code 401'',
          err_response =
            Some \<lparr> resp_status = 401, resp_data = JObj [(''error'', JStr ''invalid token'')] \<rparr>,
          err_json = JObj [] \<rparr>
     = ''{"error":"invalid token"}''\<close>
proof -
  let ?q = "\<lparr> req_method = Some ''post'', req_url = buildUrl no_env, req_headers = [],
             req_data = Some (JObj [(''phone'', JStr ''5511988887777''),
                                    (''message'', JStr ''lembrete'')]),
             req_timeout = Some 10000 \<rparr>"
  let ?timeout = "\<lparr> err_message = ''timeout of 10000ms exceeded'', err_response = None,
                   err_json = JObj [(''message'', JStr ''timeout of 10000ms exceeded''),
                                    (''name'', JStr ''AxiosError''),
                                    (''code'', JStr ''ECONNABORTED'')] \<rparr>"
  let ?r = "\<lparr> resp_status = 401, resp_data = JObj [(''error'', JStr ''invalid token'')] \<rparr>"
  let ?unauthorized = "\<lparr> err_message = ''Request failed with status code 401'',
                        err_response = Some ?r, err_json = JObj [] \<rparr>"
  have sent: "snd (enviarMensagem no_env gateway_timeout ''5511988887777'' ''lembrete'' []) = [] @ [?q]
      \<and> gateway_timeout ?q = Rejected ?timeout"
    by (simp add: enviarMensagem_def gateway_timeout_def Let_def)
  have no_response: "(err_response ?timeout = None
        \<or> (\<exists>r. err_response ?timeout = Some r \<and> \<not> truthy (resp_data r)))
      \<and> err_message ?timeout \<noteq> []"
    by simp
  have thrown: "fst (enviarMensagem no_env gateway_timeout ''5511988887777'' ''lembrete'' [])
      = Inl (Error (messageErr ?timeout))"
    using thrown_error_text_precedence
      [where e = no_env and net = gateway_timeout and phone = "''5511988887777''"
         and message = "''lembrete''" and tr = "[]" and q = ?q and err = ?timeout] sent
    by blast
  have "messageErr ?timeout = err_message ?timeout"
    using thrown_error_text_precedence [where err = ?timeout] no_response
    by blast
  with thrown have first: "fst (enviarMensagem no_env gateway_timeout ''5511988887777'' ''lembrete'' [])
      = Inl (Error ''timeout of 10000ms exceeded'')"
    by simp
  have body: "err_response ?unauthorized = Some ?r \<and> truthy (resp_data ?r)
      \<and> (\<forall>t. resp_data ?r \<noteq> JStr t)"
    by simp
  have "messageErr ?unauthorized = JSON_stringify (resp_data ?r)"
    using thrown_error_text_precedence [where err = ?unauthorized] body
    by blast
  then have second: \<open>messageErr ?unauthorized = ''{"error":"invalid token"}''\<close>
    by (simp add: json_quote_def json_escape_def)
  from first second show ?thesis
    by blast
qed

text \<open>
  The claim as written fails on its own scenario. The gateway answers HTTP 401 with the
  body \<^verbatim>\<open>{"error":"invalid token"}\<close>: \<open>enviarMensagem\<close> throws an \<open>Error\<close> whose
  message is the whole serialised body, and \<open>ZapiService.sendMessage\<close> throws an \<open>Error\<close>
  with the message of the transport error; neither returns a value.
\<close>

theorem invalid_token_scenario_counterexample:
  \<open>fst (enviarMensagem no_env gateway_401 ''5511999998888'' ''oi'' [])
     = Inl (Error ''{"error":"invalid token"}'')
   \<and> fst (ZapiService_sendMessage ZapiService_new gateway_401 ''5511999998888'' ''oi'' [])
     = Inl (Error ''Erro ao comunicar com a Z-API: Request failed with status code 401'')\<close>
  by (simp add: ZapiService_sendMessage_def sendRequest_def enviarMensagem_def messageErr_def
      gateway_401_def Let_def json_quote_def json_escape_def)

section \<open>The webhook handler\<close>

text \<open>
  Claim C6, as amended. \<open>MessageService.receiveMessage\<close> logs the payload and completes
  without an error. \<open>MessagesController.receiveMessage\<close> lets no exception escape: when
  the processing step completes it answers 200 with \<open>Message received\<close>, and when the
  processing step throws it catches the error and answers HTTP 500 with the message of
  the error, so the failure reaches the caller as a failed request; the controller
  writes nothing to the console.
\<close>

theorem webhook_failure_is_answered_500:
  "MessageService_receiveMessage payload con = (Inr (), con @ [(''Received message:'', payload)])
   \<and> (\<exists>reply. fst (MessagesController_receiveMessage process payload con) = Inr reply)
   \<and> snd (MessagesController_receiveMessage process payload con) = snd (process payload con)
   \<and> (fst (process payload con) = Inr () \<longrightarrow>
        fst (MessagesController_receiveMessage process payload con)
          = Inr \<lparr> reply_status = 200, reply_body = Text ''Message received'' \<rparr>)
   \<and> (\<forall>message. fst (process payload con) = Inl (Error message) \<longrightarrow>
        fst (MessagesController_receiveMessage process payload con)
          = Inr \<lparr> reply_status = 500, reply_body = Json (JObj [(''error'', JStr message)]) \<rparr>)"
proof -
  obtain res con' where p: "process payload con = (res, con')"
    by (cases "process payload con")
  show ?thesis
  proof (cases res)
    case (Inl ex)
    then show ?thesis
      using p by (cases ex) (simp add: MessagesController_receiveMessage_def
          MessageService_receiveMessage_def)
  next
    case (Inr u)
    then show ?thesis
      using p by (simp add: MessagesController_receiveMessage_def
          MessageService_receiveMessage_def)
  qed
qed

text \<open>
  A processing step that completes: \<open>MessageService.receiveMessage\<close>, the method of
  \<open>MessageService\<close> for incoming messages. The answer is 200 and the payload is logged.
\<close>

theorem webhook_failure_is_answered_500_witness:
  "fst (MessageService_receiveMessage (JObj [(''text'', JStr ''oi'')]) []) = Inr ()
   \<and> MessagesController_receiveMessage MessageService_receiveMessage (JObj [(''text'', JStr ''oi'')]) []
     = (Inr \<lparr> reply_status = 200, reply_body = Text ''Message received'' \<rparr>,
        [(''Received message:'', JObj [(''text'', JStr ''oi'')])])"
proof -
  have ok: "fst (MessageService_receiveMessage (JObj [(''text'', JStr ''oi'')]) []) = Inr ()"
    by (simp add: MessageService_receiveMessage_def)
  show ?thesis
    using webhook_failure_is_answered_500
      [of "JObj [(''text'', JStr ''oi'')]" "[]" MessageService_receiveMessage] ok
    by (simp add: prod_eq_iff MessageService_receiveMessage_def)
qed

text \<open>
  The claim as written fails: when the processing step throws, the caller's request is
  answered with HTTP 500 and the message of the error, and nothing is logged.
\<close>

theorem webhook_counterexample:
  "MessagesController_receiveMessage process_boom (JObj [(''text'', JStr ''oi'')]) []
     = (Inr \<lparr> reply_status = 500, reply_body = Json (JObj [(''error'', JStr ''boom'')]) \<rparr>, [])"
  by (simp add: MessagesController_receiveMessage_def process_boom_def)

section \<open>Sending a text\<close>

lemma MessageService_sendMessage_call:
  "MessageService_sendMessage this net to message tr
     = sendRequest (zapiService this) net
         (JObj [(''to'', JStr to), (''message'', JStr (trim message))]) None None tr"
  by (simp add: MessageService_sendMessage_def formatMessage_def Let_def)

text \<open>
  Claim C2, as amended. \<open>MessageService.sendMessage\<close> validates nothing. A message that
  is empty or holds only white space is trimmed to the empty string and handed to the
  gateway client all the same: one network call is issued, and the result is the data of
  the response, or the \<open>Error\<close> that the client throws when the call fails.
\<close>

theorem blank_message_is_still_sent:
  assumes "list_all is_whitespace message"
  shows "formatMessage message = []
    \<and> MessageService_sendMessage this net to message tr
        = sendRequest (zapiService this) net
            (JObj [(''to'', JStr to), (''message'', JStr [])]) None None tr
    \<and> (\<exists>q. snd (MessageService_sendMessage this net to message tr) = tr @ [q]
          \<and> fst (MessageService_sendMessage this net to message tr)
              = (case net q of
                   Resolved response \<Rightarrow> Inr (resp_data response)
                 | Rejected error \<Rightarrow>
                     Inl (Error (''Erro ao comunicar com a Z-API: '' @ err_message error))))"
proof -
  from assms have blank: "trim message = []"
    by (rule trim_blank)
  then have "formatMessage message = []"
    by (simp add: formatMessage_def)
  moreover have call: "MessageService_sendMessage this net to message tr
      = sendRequest (zapiService this) net
          (JObj [(''to'', JStr to), (''message'', JStr [])]) None None tr"
    using blank by (simp add: MessageService_sendMessage_call)
  moreover have "\<exists>q. snd (MessageService_sendMessage this net to message tr) = tr @ [q]
      \<and> fst (MessageService_sendMessage this net to message tr)
          = (case net q of
               Resolved response \<Rightarrow> Inr (resp_data response)
             | Rejected error \<Rightarrow>
                 Inl (Error (''Erro ao comunicar com a Z-API: '' @ err_message error)))"
    unfolding call by (rule sendRequest_result)
  ultimately show ?thesis
    by blast
qed

text \<open>The empty message, with a gateway that answers 401: one call, and a thrown error.\<close>

theorem blank_message_is_still_sent_witness:
  "list_all is_whitespace ''''
   \<and> length (snd (MessageService_sendMessage MessageService_new gateway_401 ''5511999998888'' '''' [])) = 1
   \<and> fst (MessageService_sendMessage MessageService_new gateway_401 ''5511999998888'' '''' [])
     = Inl (Error ''Erro ao comunicar com a Z-API: Request failed with status code 401'')"
proof -
  have blank: "list_all is_whitespace ''''"
    by simp
  obtain q where "snd (MessageService_sendMessage MessageService_new gateway_401 ''5511999998888'' '''' []) = [] @ [q]"
    and "fst (MessageService_sendMessage MessageService_new gateway_401 ''5511999998888'' '''' [])
          = (case gateway_401 q of
               Resolved response \<Rightarrow> Inr (resp_data response)
             | Rejected error \<Rightarrow>
                 Inl (Error (''Erro ao comunicar com a Z-API: '' @ err_message error)))"
    using blank_message_is_still_sent [OF blank, of MessageService_new gateway_401 "''5511999998888''" "[]"]
    by blast
  then show ?thesis
    using blank by (simp add: gateway_401_def)
qed

text \<open>
  The claim as written fails: for the message of three spaces one network call is
  issued, and the result is what the gateway answered, not an \<open>invalid input\<close> result.
\<close>

theorem blank_message_counterexample:
  "list_all is_whitespace ''   ''
   \<and> length (snd (MessageService_sendMessage MessageService_new gateway_ok ''5511999998888'' ''   '' [])) = 1
   \<and> fst (MessageService_sendMessage MessageService_new gateway_ok ''5511999998888'' ''   '' [])
     = Inr (JObj [(''success'', JBool True)])"
  by (simp add: MessageService_sendMessage_def sendRequest_def gateway_ok_def Let_def
      is_whitespace_def)

text \<open>
  Claim C3, as amended. For every pair \<open>(to, message)\<close>, valid or not,
  \<open>MessageService.sendMessage\<close> issues one outbound call through the gateway client, and
  the payload it hands to the client holds the message trimmed of the white space around
  it and the recipient as given (nothing normalises the recipient).
  \<open>ZapiService.sendMessage\<close> issues one POST to \<open>send-message\<close> whose JSON body holds
  the recipient and the message as given.
\<close>

theorem send_issues_one_call:
  "MessageService_sendMessage this net to message tr
     = sendRequest (zapiService this) net
         (JObj [(''to'', JStr to), (''message'', JStr (trim message))]) None None tr
   \<and> (\<exists>q. snd (MessageService_sendMessage this net to message tr) = tr @ [q])
   \<and> (\<exists>l r. message = l @ trim message @ r \<and> list_all is_whitespace l \<and> list_all is_whitespace r)
   \<and> (trim message \<noteq> [] \<longrightarrow>
        \<not> is_whitespace (hd (trim message)) \<and> \<not> is_whitespace (last (trim message)))
   \<and> snd (ZapiService_sendMessage zs net to message tr)
      = tr @ [\<lparr> req_method = Some ''POST'',
                req_url = apiUrl zs @ ''send-message'',
                req_headers = [(''Authorization'', ''Bearer '' @ token zs),
                               (''Content-Type'', ''application/json'')],
                req_data = Some (JObj [(''to'', JStr to), (''message'', JStr message)]),
                req_timeout = None \<rparr>]"
proof (intro conjI impI)
  show call: "MessageService_sendMessage this net to message tr
     = sendRequest (zapiService this) net
         (JObj [(''to'', JStr to), (''message'', JStr (trim message))]) None None tr"
    by (rule MessageService_sendMessage_call)
  show "\<exists>q. snd (MessageService_sendMessage this net to message tr) = tr @ [q]"
    unfolding call using sendRequest_result by blast
  show "\<exists>l r. message = l @ trim message @ r \<and> list_all is_whitespace l \<and> list_all is_whitespace r"
    by (rule trim_decompose)
  show "snd (ZapiService_sendMessage zs net to message tr)
      = tr @ [\<lparr> req_method = Some ''POST'',
                req_url = apiUrl zs @ ''send-message'',
                req_headers = [(''Authorization'', ''Bearer '' @ token zs),
                               (''Content-Type'', ''application/json'')],
                req_data = Some (JObj [(''to'', JStr to), (''message'', JStr message)]),
                req_timeout = None \<rparr>]"
    by (simp add: ZapiService_sendMessage_def sendRequest_def Let_def split: axios_outcome.split)
next
  assume "trim message \<noteq> []"
  then show "\<not> is_whitespace (hd (trim message))" and "\<not> is_whitespace (last (trim message))"
    by (rule trim_ends)+
qed

text \<open>The message \<open>oi\<close> with a space on each side is handed over as \<open>oi\<close>.\<close>

theorem send_issues_one_call_witness:
  "trim '' oi '' = ''oi''
   \<and> MessageService_sendMessage MessageService_new gateway_ok ''5511999998888'' '' oi '' []
     = sendRequest ZapiService_new gateway_ok
         (JObj [(''to'', JStr ''5511999998888''), (''message'', JStr ''oi'')]) None None []
   \<and> \<not> is_whitespace (hd (trim '' oi '')) \<and> \<not> is_whitespace (last (trim '' oi ''))"
proof -
  have t: "trim '' oi '' = ''oi''"
    by (simp add: trim_def is_whitespace_def)
  then have "trim '' oi '' \<noteq> []"
    by simp
  with send_issues_one_call [of MessageService_new gateway_ok "''5511999998888''" "'' oi ''" "[]"]
  have "MessageService_sendMessage MessageService_new gateway_ok ''5511999998888'' '' oi '' []
      = sendRequest (zapiService MessageService_new) gateway_ok
          (JObj [(''to'', JStr ''5511999998888''), (''message'', JStr (trim '' oi ''))]) None None []"
    and "\<not> is_whitespace (hd (trim '' oi '')) \<and> \<not> is_whitespace (last (trim '' oi ''))"
    by blast+
  with t show ?thesis
    by (simp add: MessageService_new_def)
qed

text \<open>
  The claim as written fails. For the recipient \<open>5511999998888\<close> and the message \<open>oi\<close>
  with a space on each side, the one request that \<open>MessageService.sendMessage\<close> issues
  has no body. For the recipient \<open>+55 (11) 99999-8888\<close> the body that
  \<open>ZapiService.sendMessage\<close> sends holds the recipient and the message unchanged.
\<close>

theorem send_body_counterexample:
  "map req_data (snd (MessageService_sendMessage MessageService_new gateway_ok
                        ''5511999998888'' '' oi '' []))
     = [None]
   \<and> map req_data (snd (ZapiService_sendMessage ZapiService_new gateway_ok
                        ''+55 (11) 99999-8888'' '' oi '' []))
     = [Some (JObj [(''to'', JStr ''+55 (11) 99999-8888''), (''message'', JStr '' oi '')])]"
  by (simp add: MessageService_sendMessage_def ZapiService_sendMessage_def sendRequest_def
      gateway_ok_def Let_def)

section \<open>Configuration\<close>

lemma or_default_nonempty: "fallback \<noteq> [] \<Longrightarrow> or_default v fallback \<noteq> []"
  by (simp add: or_default_def split: option.split)

text \<open>
  Claim C4, as amended. The base URL and the token that a send uses are never empty.
  \<open>enviarMensagem\<close> reads them from the environment, and for a variable that is unset
  or empty it takes the literal written in the source; \<open>ZapiService\<close> uses two literals
  and reads no configuration. No configuration error exists: whatever the environment,
  the send is attempted, at the URL built from the resolved values.
\<close>

theorem configuration_falls_back_to_literals:
  "BASE_URL e \<noteq> [] \<and> TOKEN e \<noteq> [] \<and> INSTANCE_ID e \<noteq> []
   \<and> apiUrl ZapiService_new = ''https://api.z-api.io/''
   \<and> token ZapiService_new = ''9D1448816F95F132200BAE50''
   \<and> (e ''ZAPI_BASE_URL'' = None \<or> e ''ZAPI_BASE_URL'' = Some [] \<longrightarrow>
        BASE_URL e = ''https://api.z-api.io'')
   \<and> (e ''ZAPI_TOKEN'' = None \<or> e ''ZAPI_TOKEN'' = Some [] \<longrightarrow>
        TOKEN e = ''6ED2B6C9FBB305ACA45EF6ED'')
   \<and> (e ''ZAPI_INSTANCE_ID'' = None \<or> e ''ZAPI_INSTANCE_ID'' = Some [] \<longrightarrow>
        INSTANCE_ID e = ''3E68FAC9BEFB716A85B5B24F68547F08'')
   \<and> (\<forall>v. e ''ZAPI_BASE_URL'' = Some v \<and> v \<noteq> [] \<longrightarrow> BASE_URL e = v)
   \<and> (\<forall>v. e ''ZAPI_TOKEN'' = Some v \<and> v \<noteq> [] \<longrightarrow> TOKEN e = v)
   \<and> (\<forall>v. e ''ZAPI_INSTANCE_ID'' = Some v \<and> v \<noteq> [] \<longrightarrow> INSTANCE_ID e = v)
   \<and> (\<exists>q. snd (enviarMensagem e net phone message tr) = tr @ [q]
        \<and> req_url q
            = BASE_URL e @ ''/instances/'' @ INSTANCE_ID e @ ''/token/'' @ TOKEN e @ ''/send-message'')"
proof -
  have "BASE_URL e \<noteq> []" "TOKEN e \<noteq> []" "INSTANCE_ID e \<noteq> []"
    by (simp_all add: BASE_URL_def TOKEN_def INSTANCE_ID_def or_default_nonempty)
  moreover have "apiUrl ZapiService_new = ''https://api.z-api.io/''"
    "token ZapiService_new = ''9D1448816F95F132200BAE50''"
    by (simp_all add: ZapiService_new_def)
  moreover have "e ''ZAPI_BASE_URL'' = None \<or> e ''ZAPI_BASE_URL'' = Some [] \<longrightarrow>
      BASE_URL e = ''https://api.z-api.io''"
    by (auto simp: BASE_URL_def or_default_def)
  moreover have "e ''ZAPI_TOKEN'' = None \<or> e ''ZAPI_TOKEN'' = Some [] \<longrightarrow>
      TOKEN e = ''6ED2B6C9FBB305ACA45EF6ED''"
    by (auto simp: TOKEN_def or_default_def)
  moreover have "e ''ZAPI_INSTANCE_ID'' = None \<or> e ''ZAPI_INSTANCE_ID'' = Some [] \<longrightarrow>
      INSTANCE_ID e = ''3E68FAC9BEFB716A85B5B24F68547F08''"
    by (auto simp: INSTANCE_ID_def or_default_def)
  moreover have "\<forall>v. e ''ZAPI_BASE_URL'' = Some v \<and> v \<noteq> [] \<longrightarrow> BASE_URL e = v"
    by (simp add: BASE_URL_def or_default_def)
  moreover have "\<forall>v. e ''ZAPI_TOKEN'' = Some v \<and> v \<noteq> [] \<longrightarrow> TOKEN e = v"
    by (simp add: TOKEN_def or_default_def)
  moreover have "\<forall>v. e ''ZAPI_INSTANCE_ID'' = Some v \<and> v \<noteq> [] \<longrightarrow> INSTANCE_ID e = v"
    by (simp add: INSTANCE_ID_def or_default_def)
  moreover have "\<exists>q. snd (enviarMensagem e net phone message tr) = tr @ [q]
      \<and> req_url q
          = BASE_URL e @ ''/instances/'' @ INSTANCE_ID e @ ''/token/'' @ TOKEN e @ ''/send-message''"
    using enviarMensagem_result [of e net phone message tr] by (auto simp: buildUrl_def)
  ultimately show ?thesis
    by blast
qed

text \<open>An environment that sets only the token.\<close>

theorem configuration_falls_back_to_literals_witness:
  "TOKEN (no_env(''ZAPI_TOKEN'' := Some ''T0K3N'')) = ''T0K3N''
   \<and> BASE_URL (no_env(''ZAPI_TOKEN'' := Some ''T0K3N'')) = ''https://api.z-api.io''
   \<and> INSTANCE_ID (no_env(''ZAPI_TOKEN'' := Some ''T0K3N'')) = ''3E68FAC9BEFB716A85B5B24F68547F08''"
proof -
  let ?e = "no_env(''ZAPI_TOKEN'' := Some ''T0K3N'')"
  have set: "?e ''ZAPI_TOKEN'' = Some ''T0K3N'' \<and> ''T0K3N'' \<noteq> []"
    by simp
  have unset: "?e ''ZAPI_BASE_URL'' = None \<or> ?e ''ZAPI_BASE_URL'' = Some []"
    "?e ''ZAPI_INSTANCE_ID'' = None \<or> ?e ''ZAPI_INSTANCE_ID'' = Some []"
    by (simp_all add: no_env_def)
  from configuration_falls_back_to_literals [of ?e] set unset show ?thesis
    by blast
qed

text \<open>
  The claim as written fails: with no variable set, nothing fails fast. The send is
  attempted with the credentials written in the source, and it succeeds when the
  gateway accepts it.
\<close>

theorem missing_configuration_counterexample:
  "fst (enviarMensagem no_env gateway_ok ''5511999998888'' ''oi'' [])
     = Inr (JObj [(''success'', JBool True)])
   \<and> map req_url (snd (enviarMensagem no_env gateway_ok ''5511999998888'' ''oi'' []))
     = [''https://api.z-api.io/instances/3E68FAC9BEFB716A85B5B24F68547F08/token/6ED2B6C9FBB305ACA45EF6ED/send-message'']"
  by (simp add: enviarMensagem_def buildUrl_def BASE_URL_def INSTANCE_ID_def TOKEN_def
      or_default_def no_env_def gateway_ok_def Let_def)

end
